theory Spec2Isabelle
  imports Main
begin

section \<open>JavaScript values as the pipeline sees them\<close>

text \<open>
  The query pipeline of \<^verbatim>\<open>ui/src/App.js\<close> (\<^verbatim>\<open>processQuery\<close>) works on JSON
  decoded by the HTTP client. A value is one of the JSON shapes, or \<^verbatim>\<open>undefined\<close>
  (what reading a missing property gives).

  \<^item> A string is a \<^typ>\<open>string\<close>; non-ASCII text is carried as its UTF-8 bytes.
  \<^item> A number is represented by the two observations this code makes of it: whether it
    is falsy (\<^verbatim>\<open>0\<close>, \<^verbatim>\<open>-0\<close>, \<^verbatim>\<open>NaN\<close>) and the text \<^verbatim>\<open>String(n)\<close> renders.
    No arithmetic is done on decoded numbers.
  \<^item> An object is the list of its own properties in enumeration order, that is, the list
    \<^verbatim>\<open>Object.entries\<close> returns.
\<close>

datatype jsval =
    JUndefined
  | JNull
  | JBool bool
  | JNum bool string
  | JStr string
  | JArr "jsval list"
  | JObj "(string \<times> jsval) list"

text \<open>\<^verbatim>\<open>ToBoolean\<close>, as used by \<^verbatim>\<open>||\<close>, \<^verbatim>\<open>&&\<close> and \<^verbatim>\<open>!\<close>.\<close>

fun truthy :: "jsval \<Rightarrow> bool" where
  "truthy JUndefined = False"
| "truthy JNull = False"
| "truthy (JBool b) = b"
| "truthy (JNum falsy _) = (\<not> falsy)"
| "truthy (JStr s) = (s \<noteq> [])"
| "truthy (JArr _) = True"
| "truthy (JObj _) = True"

text \<open>\<^verbatim>\<open>a || b\<close>.\<close>

definition js_or :: "jsval \<Rightarrow> jsval \<Rightarrow> jsval" where
  "js_or a b = (if truthy a then a else b)"

text \<open>\<^verbatim>\<open>typeof v\<close>.\<close>

fun js_typeof :: "jsval \<Rightarrow> string" where
  "js_typeof JUndefined = ''undefined''"
| "js_typeof JNull = ''object''"
| "js_typeof (JBool _) = ''boolean''"
| "js_typeof (JNum _ _) = ''number''"
| "js_typeof (JStr _) = ''string''"
| "js_typeof (JArr _) = ''object''"
| "js_typeof (JObj _) = ''object''"

definition nullish :: "jsval \<Rightarrow> bool" where
  "nullish v = (v = JUndefined \<or> v = JNull)"

text \<open>
  Reading a property \<^verbatim>\<open>v.k\<close> of a value that is neither \<^verbatim>\<open>undefined\<close> nor
  \<^verbatim>\<open>null\<close>. The pipeline reads only names that no prototype defines
  (\<^verbatim>\<open>time_range\<close>, \<^verbatim>\<open>filters\<close>, \<^verbatim>\<open>query_type\<close>, \<^verbatim>\<open>description\<close>), so a value
  that is not an object gives \<^verbatim>\<open>undefined\<close>.
\<close>

fun get_prop :: "jsval \<Rightarrow> string \<Rightarrow> jsval" where
  "get_prop (JObj kvs) k = (case map_of kvs k of None \<Rightarrow> JUndefined | Some v \<Rightarrow> v)"
| "get_prop _ k = JUndefined"

text \<open>\<^verbatim>\<open>Array.prototype.join\<close> on an array of strings.\<close>

fun join :: "string \<Rightarrow> string list \<Rightarrow> string" where
  "join sep [] = []"
| "join sep [x] = x"
| "join sep (x # y # ys) = x @ sep @ join sep (y # ys)"

text \<open>
  \<^verbatim>\<open>ToString\<close>, as a template literal \<^verbatim>\<open>`${v}`\<close> applies it. An array joins its
  elements with a comma, \<^verbatim>\<open>null\<close> and \<^verbatim>\<open>undefined\<close> elements rendering empty. A
  plain object renders \<^verbatim>\<open>[object Object]\<close>, unless it has an own property named
  \<^verbatim>\<open>toString\<close>: decoded from JSON that property is not callable, and the conversion
  throws a TypeError (\<open>None\<close>).
\<close>

fun js_toString :: "jsval \<Rightarrow> string option"
  and js_elems :: "jsval list \<Rightarrow> string list option" where
  "js_toString JUndefined = Some ''undefined''"
| "js_toString JNull = Some ''null''"
| "js_toString (JBool b) = Some (if b then ''true'' else ''false'')"
| "js_toString (JNum _ s) = Some s"
| "js_toString (JStr s) = Some s"
| "js_toString (JArr xs) = map_option (join '','') (js_elems xs)"
| "js_toString (JObj kvs) =
     (if ''toString'' \<in> set (map fst kvs) then None else Some ''[object Object]'')"
| "js_elems [] = Some []"
| "js_elems (x # xs) =
     (case (if x = JUndefined \<or> x = JNull then Some [] else js_toString x) of
        None \<Rightarrow> None
      | Some s \<Rightarrow> (case js_elems xs of None \<Rightarrow> None | Some ss \<Rightarrow> Some (s # ss)))"

text \<open>Decimal rendering of an array index.\<close>

definition digit_char :: "nat \<Rightarrow> char" where
  "digit_char d = ''0123456789'' ! d"

fun decimal :: "nat \<Rightarrow> string" where
  "decimal n = (if n < 10 then [digit_char n] else decimal (n div 10) @ [digit_char (n mod 10)])"

declare decimal.simps [simp del]

text \<open>
  \<^verbatim>\<open>Object.entries(v)\<close> for a truthy value: the own enumerable properties. An object
  gives its properties, an array its elements under their indices, a string its
  characters under their indices, a number or a boolean nothing. A filter mapping is an
  object. For a string the characters are those of the \<^typ>\<open>string\<close>, which is exact
  for ASCII text only: JavaScript enumerates UTF-16 code units, of which a non-ASCII
  character has one or two where its UTF-8 encoding has two to four bytes.
\<close>

fun indexed :: "nat \<Rightarrow> 'a list \<Rightarrow> (string \<times> 'a) list" where
  "indexed i [] = []"
| "indexed i (x # xs) = (decimal i, x) # indexed (Suc i) xs"

fun entries :: "jsval \<Rightarrow> (string \<times> jsval) list" where
  "entries (JObj kvs) = kvs"
| "entries (JArr xs) = indexed 0 xs"
| "entries (JStr s) = indexed 0 (map (\<lambda>c. JStr [c]) s)"
| "entries _ = []"

text \<open>
  \<^verbatim>\<open>toLowerCase\<close> and \<^verbatim>\<open>includes\<close>, as the choice of the index pattern uses
  them: to search the lowered question for an ASCII keyword. The case mapping is that
  of the ASCII letters, and other bytes are kept. The only non-ASCII characters that
  JavaScript lowers to text with an ASCII letter are U+0130, which gives \<^verbatim>\<open>i\<close>
  followed by a combining dot, and the Kelvin sign, which gives \<^verbatim>\<open>k\<close>; neither can
  complete one of the keywords \<^verbatim>\<open>auth\<close>, \<^verbatim>\<open>login\<close>, \<^verbatim>\<open>payment\<close> and
  \<^verbatim>\<open>mobile\<close>, so the searches agree.
\<close>

definition lower_char :: "char \<Rightarrow> char" where
  "lower_char c =
     (case map_of (zip ''ABCDEFGHIJKLMNOPQRSTUVWXYZ'' ''abcdefghijklmnopqrstuvwxyz'') c of
        None \<Rightarrow> c
      | Some l \<Rightarrow> l)"

definition toLowerCase :: "string \<Rightarrow> string" where
  "toLowerCase s = map lower_char s"

fun starts_with :: "string \<Rightarrow> string \<Rightarrow> bool" where
  "starts_with s [] = True"
| "starts_with [] (p # ps) = False"
| "starts_with (c # cs) (p # ps) = (c = p \<and> starts_with cs ps)"

fun str_includes :: "string \<Rightarrow> string \<Rightarrow> bool" where
  "str_includes [] p = (p = [])"
| "str_includes (c # cs) p = (starts_with (c # cs) p \<or> str_includes cs p)"

section \<open>The Time Range Resolver\<close>

text \<open>
  \<^verbatim>\<open>getDateRangeForDSL\<close> (App.js, lines 87 to 103). A \<^verbatim>\<open>Date\<close> is its time value,
  the milliseconds since the epoch; the source renders each bound with
  \<^verbatim>\<open>toISOString\<close>, which the model leaves out. The object returned has the key
  \<^verbatim>\<open>gte\<close> and one of the keys \<^verbatim>\<open>lt\<close> and \<^verbatim>\<open>lte\<close>.

  \<^verbatim>\<open>new Date(y, m, d)\<close> is midnight of a local calendar day in the time zone of the
  process. The rules of that zone are not fixed here (where daylight saving changes, a
  day is 23 or 25 hours long): a zone is any pair of functions that give, for an
  instant, the midnight that starts its local calendar day and the midnight that starts
  the next one, the first not after the instant and the second after it.
\<close>

datatype upper_bound = Lt int | Lte int

datatype date_range = DateRange (gte: int) (upper: upper_bound)

fun bound_instant :: "upper_bound \<Rightarrow> int" where
  "bound_instant (Lt t) = t"
| "bound_instant (Lte t) = t"

definition range_from :: "date_range \<Rightarrow> int" where
  "range_from r = gte r"

definition range_to :: "date_range \<Rightarrow> int" where
  "range_to r = bound_instant (upper r)"

typedef zone = "{z :: (int \<Rightarrow> int) \<times> (int \<Rightarrow> int). \<forall>t. fst z t \<le> t \<and> t < snd z t}"
proof
  show "(\<lambda>t. t, \<lambda>t. t + 1) \<in> {z :: (int \<Rightarrow> int) \<times> (int \<Rightarrow> int). \<forall>t. fst z t \<le> t \<and> t < snd z t}"
    by simp
qed

setup_lifting type_definition_zone

text \<open>\<^verbatim>\<open>new Date(now.getFullYear(), now.getMonth(), now.getDate())\<close>.\<close>

lift_definition midnight_today :: "zone \<Rightarrow> int \<Rightarrow> int" is fst .

text \<open>\<^verbatim>\<open>new Date(now.getFullYear(), now.getMonth(), now.getDate() + 1)\<close>.\<close>

lift_definition midnight_tomorrow :: "zone \<Rightarrow> int \<Rightarrow> int" is snd .

definition getDateRangeForDSL :: "zone \<Rightarrow> int \<Rightarrow> jsval \<Rightarrow> date_range" where
  "getDateRangeForDSL z now timeRange =
     (if timeRange = JStr ''today'' then
        (let startOfDay = midnight_today z now;
             endOfDay = midnight_tomorrow z now
         in DateRange startOfDay (Lt endOfDay))
      else if timeRange = JStr ''last_hour'' then
        (let oneHourAgo = now - 60 * 60 * 1000
         in DateRange oneHourAgo (Lte now))
      else if timeRange = JStr ''last_24h'' then
        (let twentyFourHoursAgo = now - 24 * 60 * 60 * 1000
         in DateRange twentyFourHoursAgo (Lte now))
      else DateRange (now - 60 * 60 * 1000) (Lte now))"

text \<open>
  One zone, for concrete instants: a constant offset of \<open>tz\<close> milliseconds east of
  UTC, where the local day of the instant \<open>t\<close> is \<open>(t + tz) div msPerDay\<close> and every
  day is 24 hours long.
\<close>

definition msPerDay :: int where
  "msPerDay = 24 * 60 * 60 * 1000"

definition offset_midnight :: "int \<Rightarrow> int \<Rightarrow> int \<Rightarrow> int" where
  "offset_midnight tz t k = ((t + tz) div msPerDay + k) * msPerDay - tz"

lift_definition fixed_offset :: "int \<Rightarrow> zone"
  is "\<lambda>tz. (\<lambda>t. offset_midnight tz t 0, \<lambda>t. offset_midnight tz t 1)"
proof -
  fix tz t :: int
  have "(t + tz) div msPerDay * msPerDay \<le> t + tz"
    by (simp add: msPerDay_def)
  moreover have "t + tz < ((t + tz) div msPerDay + 1) * msPerDay"
  proof -
    have "0 < msPerDay"
      by (simp add: msPerDay_def)
    then have "(t + tz) mod msPerDay < msPerDay"
      by simp
    moreover have "t + tz = (t + tz) div msPerDay * msPerDay + (t + tz) mod msPerDay"
      by simp
    ultimately show ?thesis
      by (simp only: distrib_right mult_1)
  qed
  ultimately show "fst (\<lambda>t. offset_midnight tz t 0, \<lambda>t. offset_midnight tz t 1) t \<le> t
      \<and> t < snd (\<lambda>t. offset_midnight tz t 0, \<lambda>t. offset_midnight tz t 1) t"
    by (simp add: offset_midnight_def)
qed

section \<open>The query pipeline\<close>

subsection \<open>Query documents\<close>

text \<open>
  A clause of \<^verbatim>\<open>mustClauses\<close> is \<^verbatim>\<open>{"term": {[field]: value}}\<close> or
  \<^verbatim>\<open>{"range": {"@timestamp": r}}\<close>, where \<^verbatim>\<open>r\<close> is a filter's value as received or
  the object the Time Range Resolver returned.
\<close>

datatype range_value = FilterValue jsval | Resolved date_range

datatype clause = TermClause string jsval | RangeClause string range_value

datatype agg = ValueCount string | Terms string

record search_doc =
  must :: "clause list"
  doc_size :: nat
  aggs :: "(string \<times> agg) list"

text \<open>
  \<^verbatim>\<open>dslQuery\<close> starts as the empty object \<^verbatim>\<open>{}\<close>, is set to \<^verbatim>\<open>null\<close> by the
  greeting and help branches and to a search document by the count branch.
\<close>

datatype dsl = DslNull | DslEmptyObject | DslDoc search_doc

text \<open>The loop over \<^verbatim>\<open>Object.entries(filters)\<close> (lines 124 to 131), one step.\<close>

definition filter_clause :: "string \<times> jsval \<Rightarrow> clause" where
  "filter_clause fv =
     (case fv of (field, v) \<Rightarrow>
        if field = ''@timestamp'' \<and> js_typeof v = ''object''
        then RangeClause ''@timestamp'' (FilterValue v)
        else TermClause field v)"

text \<open>Lines 124 to 136: the filter loop, then the time range when one is given.\<close>

definition mustClauses :: "zone \<Rightarrow> int \<Rightarrow> jsval \<Rightarrow> jsval \<Rightarrow> clause list" where
  "mustClauses z now fs tr =
     map filter_clause (entries fs)
     @ (if truthy tr \<and> tr \<noteq> JStr ''null''
        then [RangeClause ''@timestamp'' (Resolved (getDateRangeForDSL z now tr))]
        else [])"

text \<open>Lines 139 to 146.\<close>

definition indexPattern :: "string \<Rightarrow> string" where
  "indexPattern query =
     (if str_includes (toLowerCase query) ''auth'' \<or> str_includes (toLowerCase query) ''login''
      then ''logs-auth-*''
      else if str_includes (toLowerCase query) ''payment'' then ''logs-payment-*''
      else if str_includes (toLowerCase query) ''mobile'' then ''logs-mobile-*''
      else ''logs-*'')"

text \<open>Lines 162 to 174.\<close>

definition count_dsl :: "clause list \<Rightarrow> search_doc" where
  "count_dsl cs =
     \<lparr> must = cs,
        doc_size = 0,
        aggs = [(''total_count'', ValueCount ''event.action''),
                (''by_channel'', Terms ''app.channel''),
                (''by_outcome'', Terms ''event.outcome'')] \<rparr>"

subsection \<open>Answer text\<close>

abbreviation nl :: string where "nl \<equiv> [CHR 0x0A]"
abbreviation dq :: string where "dq \<equiv> [CHR 0x22]"
abbreviation apos :: string where "apos \<equiv> [CHR 0x27]"
abbreviation bullet :: string where "bullet \<equiv> [CHR 0xE2, CHR 0x80, CHR 0xA2]"

definition greeting_answer :: string where
  "greeting_answer =
     ''Hello! '' @ [CHR 0xF0, CHR 0x9F, CHR 0x91, CHR 0x8B] @ '' I'' @ apos
     @ ''m LogWell, your log analytics assistant. I can help you analyze ''
     @ ''your banking system logs.'' @ nl @ nl @ ''Try asking me questions like:'' @ nl
     @ nl @ bullet @ '' '' @ dq @ ''How many failed logins were there today?'' @ dq @ nl
     @ bullet @ '' '' @ dq
     @ ''Show me mobile authentication failures in the last 24 hours'' @ dq @ nl @ bullet
     @ '' '' @ dq @ ''What are the payment processing errors?'' @ dq @ nl @ nl
     @ ''What would you like to know about your logs?''"

definition help_answer :: string where
  "help_answer =
     ''I'' @ apos @ ''m here to help you analyze your banking system logs! ''
     @ [CHR 0xF0, CHR 0x9F, CHR 0x93, CHR 0x8A] @ nl @ nl
     @ ''I can answer questions about:'' @ nl @ nl
     @ [CHR 0xF0, CHR 0x9F, CHR 0x94, CHR 0x90] @ '' **Authentication & Logins**'' @ nl
     @ bullet @ '' Failed/successful login attempts'' @ nl @ bullet
     @ '' Mobile, online, and IVR channels'' @ nl @ bullet
     @ '' Time-based analysis (today, yesterday, last 24 hours, etc.)'' @ nl @ nl
     @ [CHR 0xF0, CHR 0x9F, CHR 0x92, CHR 0xB3] @ '' **Payment Processing**'' @ nl @ bullet
     @ '' Transaction successes and failures'' @ nl @ bullet
     @ '' Payment methods and channels'' @ nl @ bullet @ '' Error analysis and trends''
     @ nl @ nl @ [CHR 0xF0, CHR 0x9F, CHR 0x93, CHR 0xB1] @ '' **App Channels**'' @ nl
     @ bullet @ '' Mobile app activity'' @ nl @ bullet @ '' Online banking usage'' @ nl
     @ bullet @ '' IVR system interactions'' @ nl @ nl
     @ [CHR 0xF0, CHR 0x9F, CHR 0x92, CHR 0xA1] @ '' **Example Queries:**'' @ nl @ bullet
     @ '' '' @ dq @ ''failed logins on mobile today'' @ dq @ nl @ bullet @ '' '' @ dq
     @ ''total payment failures yesterday'' @ dq @ nl @ bullet @ '' '' @ dq
     @ ''authentication errors in last 24 hours'' @ dq @ nl @ bullet @ '' '' @ dq
     @ ''successful transactions by channel'' @ dq @ nl @ nl
     @ ''What would you like to explore?''"

definition unsupported_answer :: "string \<Rightarrow> string" where
  "unsupported_answer d =
     ''I understood your query as: '' @ dq @ d @ dq @ nl @ nl
     @ ''However, I can currently only handle count queries. Try asking '' @ ''about:''
     @ nl @ nl @ bullet @ '' Failed logins (mobile, online, ivr)'' @ nl @ bullet
     @ '' Authentication events'' @ nl @ bullet @ '' Payment processing'' @ nl @ bullet
     @ '' App channel activity'' @ nl @ nl @ ''For example: '' @ dq
     @ ''how many failed logins today'' @ dq @ '' or '' @ dq
     @ ''show me authentication failures in last 24 hours'' @ dq"

text \<open>Lines 187 to 191.\<close>

definition timeDesc :: "jsval \<Rightarrow> string" where
  "timeDesc tr =
     (if tr = JStr ''today'' then ''today''
      else if tr = JStr ''last_24h'' then ''last 24 hours''
      else if tr = JStr ''last_hour'' then ''last hour''
      else if tr = JStr ''yesterday'' then ''yesterday''
      else if tr = JStr ''last_week'' then ''last week''
      else ''all time'')"

text \<open>
  The reply of the search engine, in the shape the source reads it:
  \<^verbatim>\<open>aggregations?.total_count?.value\<close> (\<^verbatim>\<open>undefined\<close> when a link is missing) and
  the two bucket arrays (\<open>None\<close> when missing), each bucket an object with a
  \<^verbatim>\<open>key\<close> and a \<^verbatim>\<open>doc_count\<close>.
\<close>

record bucket =
  key :: jsval
  doc_count :: jsval

record aggregations =
  total_count_value :: jsval
  by_channel_buckets :: "bucket list option"
  by_outcome_buckets :: "bucket list option"

text \<open>\<^verbatim>\<open>`- ${c.key}: ${c.doc_count}`\<close>.\<close>

definition bucket_line :: "bucket \<Rightarrow> string option" where
  "bucket_line c =
     (case js_toString (key c) of
        None \<Rightarrow> None
      | Some k \<Rightarrow> (case js_toString (doc_count c) of
                     None \<Rightarrow> None
                   | Some n \<Rightarrow> Some (''- '' @ k @ '': '' @ n)))"

text \<open>Lines 195 to 201: a breakdown is added only for a non-empty bucket array.\<close>

definition breakdown :: "string \<Rightarrow> bucket list \<Rightarrow> string option" where
  "breakdown title bs =
     (if length bs > 0
      then (case those (map bucket_line bs) of
              None \<Rightarrow> None
            | Some ls \<Rightarrow> Some (nl @ nl @ ''Breakdown by '' @ title @ '':'' @ nl @ join nl ls))
      else Some [])"

text \<open>Lines 182 to 201.\<close>

definition count_answer :: "jsval \<Rightarrow> jsval \<Rightarrow> aggregations \<Rightarrow> string option" where
  "count_answer descr tr res =
     (let totalCount = js_or (total_count_value res) (JNum True ''0'');
          channels = (case by_channel_buckets res of None \<Rightarrow> [] | Some bs \<Rightarrow> bs);
          outcomes = (case by_outcome_buckets res of None \<Rightarrow> [] | Some bs \<Rightarrow> bs)
      in case js_toString descr of
           None \<Rightarrow> None
         | Some d \<Rightarrow>
        (case js_toString totalCount of
           None \<Rightarrow> None
         | Some n \<Rightarrow>
        (case breakdown ''channel'' channels of
           None \<Rightarrow> None
         | Some bc \<Rightarrow>
        (case breakdown ''outcome'' outcomes of
           None \<Rightarrow> None
         | Some bo \<Rightarrow>
             Some (d @ nl @ nl @ ''**'' @ n @ ''** events found in the '' @ timeDesc tr @ ''.''
                   @ bc @ bo)))))"

subsection \<open>The deep-link filter expression\<close>

text \<open>Line 204, one filter: \<^verbatim>\<open>`${field}:"${value}"`\<close>.\<close>

definition kql_atom :: "string \<times> jsval \<Rightarrow> string option" where
  "kql_atom fv =
     (case fv of (field, v) \<Rightarrow>
        (case js_toString v of None \<Rightarrow> None | Some s \<Rightarrow> Some (field @ '':'' @ dq @ s @ dq)))"

text \<open>Lines 204 to 207.\<close>

definition kqlQuery :: "jsval \<Rightarrow> string option" where
  "kqlQuery fs =
     (case those (map kql_atom (entries fs)) of
        None \<Rightarrow> None
      | Some atoms \<Rightarrow>
          (let kql = join '' AND '' atoms in Some (if kql = [] then ''*'' else kql)))"

subsection \<open>The classifier's interpretation\<close>

text \<open>
  Lines 111 to 115. Reading a property of \<^verbatim>\<open>undefined\<close> or \<^verbatim>\<open>null\<close> throws a
  TypeError.
\<close>

datatype error = TypeError | ServiceError string

record structured =
  timeRange :: jsval
  filters :: jsval
  queryType :: jsval
  description :: jsval

definition normalize :: "string \<Rightarrow> jsval \<Rightarrow> error + structured" where
  "normalize query structuredQuery =
     (if nullish structuredQuery then Inl TypeError
      else Inr \<lparr> timeRange = get_prop structuredQuery ''time_range'',
                  filters = js_or (get_prop structuredQuery ''filters'') (JObj []),
                  queryType = js_or (get_prop structuredQuery ''query_type'') (JStr ''count''),
                  description = js_or (get_prop structuredQuery ''description'') (JStr query) \<rparr>)"

text \<open>The chain of tests on \<^verbatim>\<open>queryType\<close> (lines 148, 154, 160 and 216).\<close>

datatype branch = Greeting | Help | Count | Unsupported

definition branch_of :: "jsval \<Rightarrow> branch" where
  "branch_of qt =
     (if qt = JStr ''greeting'' then Greeting
      else if qt = JStr ''help'' then Help
      else if qt = JStr ''count'' then Count
      else Unsupported)"

subsection \<open>\<^verbatim>\<open>processQuery\<close>\<close>

text \<open>
  The three tools of the MCP server are the environment: each call either fails (the
  request is rejected, \<open>Inl\<close>) or gives its reply. \<^verbatim>\<open>interpret_query\<close> gives
  \<^verbatim>\<open>data.result.structured_query\<close>, \<^verbatim>\<open>execute_es_query\<close> the aggregations read from
  \<^verbatim>\<open>data.result\<close>, \<^verbatim>\<open>create_kibana_link\<close> gives \<^verbatim>\<open>data.result.kibana_link\<close>.
  A reply without \<^verbatim>\<open>data.result\<close> makes the source throw on the next property
  read; it counts as a failed call.
  \<^verbatim>\<open>processQuery\<close> returns the calls it made, in order, and either the error it
  threw (the source rethrows it as \<^verbatim>\<open>Failed to process query: ...\<close>) or its
  response. The field \<^verbatim>\<open>dsl\<close> of the response is the document itself; the source
  returns its \<^verbatim>\<open>JSON.stringify\<close> rendering.
\<close>

datatype call =
    InterpretQuery string
  | ExecuteEsQuery string search_doc
  | CreateKibanaLink string jsval string

record services =
  interpret_query :: "string \<Rightarrow> error + jsval"
  execute_es_query :: "string \<Rightarrow> search_doc \<Rightarrow> error + aggregations"
  create_kibana_link :: "string \<Rightarrow> jsval \<Rightarrow> string \<Rightarrow> error + jsval"

record response =
  answer :: string
  kibanaLink :: jsval
  dsl :: dsl
  interpreted_query :: jsval

text \<open>The count branch, lines 160 to 214.\<close>

definition count_query ::
  "services \<Rightarrow> zone \<Rightarrow> int \<Rightarrow> string \<Rightarrow> jsval \<Rightarrow> structured \<Rightarrow> call list \<times> (error + response)"
where
  "count_query svc z now query structuredQuery i =
     (let dslQuery = count_dsl (mustClauses z now (filters i) (timeRange i));
          exec = ExecuteEsQuery (indexPattern query) dslQuery
      in case execute_es_query svc (indexPattern query) dslQuery of
           Inl e \<Rightarrow> ([exec], Inl e)
         | Inr res \<Rightarrow>
        (case count_answer (description i) (timeRange i) res of
           None \<Rightarrow> ([exec], Inl TypeError)
         | Some a \<Rightarrow>
        (case kqlQuery (filters i) of
           None \<Rightarrow> ([exec], Inl TypeError)
         | Some kql \<Rightarrow>
        (let time_range = js_or (timeRange i) (JStr ''all_time'');
             link = CreateKibanaLink (indexPattern query) time_range kql
         in case create_kibana_link svc (indexPattern query) time_range kql of
              Inl e \<Rightarrow> ([exec, link], Inl e)
            | Inr l \<Rightarrow>
                ([exec, link],
                 Inr \<lparr> answer = a, kibanaLink = l, dsl = DslDoc dslQuery,
                        interpreted_query = structuredQuery \<rparr>)))))"

text \<open>Lines 105 to 232.\<close>

definition processQuery ::
  "services \<Rightarrow> zone \<Rightarrow> int \<Rightarrow> string \<Rightarrow> call list \<times> (error + response)"
where
  "processQuery svc z now query =
     (case interpret_query svc query of
        Inl e \<Rightarrow> ([InterpretQuery query], Inl e)
      | Inr structuredQuery \<Rightarrow>
     (case normalize query structuredQuery of
        Inl e \<Rightarrow> ([InterpretQuery query], Inl e)
      | Inr i \<Rightarrow>
     (case branch_of (queryType i) of
        Greeting \<Rightarrow>
          ([InterpretQuery query],
           Inr \<lparr> answer = greeting_answer, kibanaLink = JNull, dsl = DslNull,
                  interpreted_query = structuredQuery \<rparr>)
      | Help \<Rightarrow>
          ([InterpretQuery query],
           Inr \<lparr> answer = help_answer, kibanaLink = JNull, dsl = DslNull,
                  interpreted_query = structuredQuery \<rparr>)
      | Count \<Rightarrow>
          (case count_query svc z now query structuredQuery i of
             (calls, r) \<Rightarrow> (InterpretQuery query # calls, r))
      | Unsupported \<Rightarrow>
          (case js_toString (description i) of
             None \<Rightarrow> ([InterpretQuery query], Inl TypeError)
           | Some d \<Rightarrow>
               ([InterpretQuery query],
                Inr \<lparr> answer = unsupported_answer d, kibanaLink = JNull,
                       dsl = DslEmptyObject, interpreted_query = structuredQuery \<rparr>)))))"

section \<open>The Field Resolver\<close>

text \<open>
  \<^verbatim>\<open>validate_field_with_suggestions\<close> and \<^verbatim>\<open>find_similar_fields\<close>, the auto-suggest
  pattern of \<^verbatim>\<open>.github/copilot-instructions.md\<close> (lines 183 to 209). The schema
  \<^verbatim>\<open>available_fields\<close> is a Python dict from field names to metadata, kept as the list
  of its items in insertion order; the metadata of a field may list synonyms.

  \<^verbatim>\<open>str.lower\<close> follows the Unicode case mapping of the Python runtime: it is the
  parameter \<open>lower\<close>, a function on text in its UTF-8 encoding, and nothing is
  assumed of it. On such text the test \<^verbatim>\<open>a in b\<close> is \<open>str_includes b a\<close>. On ASCII
  text \<^verbatim>\<open>str.lower\<close> is \<open>ascii_lower\<close>, which the concrete examples use.
\<close>

record metadata =
  synonyms :: "string list option"

type_synonym available_fields = "(string \<times> metadata) list"

definition ascii_lower :: "string \<Rightarrow> string" where
  "ascii_lower s = map lower_char s"

text \<open>The inner loop over \<^verbatim>\<open>metadata["synonyms"]\<close>.\<close>

fun synonym_hits ::
  "(string \<Rightarrow> string) \<Rightarrow> string \<Rightarrow> string \<Rightarrow> string list \<Rightarrow> string list" where
  "synonym_hits lower target field [] = []"
| "synonym_hits lower target field (synonym # rest) =
     (if str_includes (lower synonym) (lower target) then [field] else [])
     @ synonym_hits lower target field rest"

text \<open>The loop over \<^verbatim>\<open>available_fields.items()\<close>: the list \<^verbatim>\<open>suggestions\<close> it builds.\<close>

fun suggestions_of ::
  "(string \<Rightarrow> string) \<Rightarrow> string \<Rightarrow> available_fields \<Rightarrow> string list" where
  "suggestions_of lower target [] = []"
| "suggestions_of lower target ((field, m) # rest) =
     (if str_includes (lower field) (lower target) then [field] else [])
     @ (case synonyms m of None \<Rightarrow> [] | Some syns \<Rightarrow> synonym_hits lower target field syns)
     @ suggestions_of lower target rest"

text \<open>
  \<^verbatim>\<open>list(set(suggestions))\<close> lists each element once, in the iteration order of a
  Python set, which for strings depends on the process's hash seed. The order is the
  parameter \<open>order\<close>; \<open>set_order\<close> says what every such order satisfies.
\<close>

definition set_order :: "(string list \<Rightarrow> string list) \<Rightarrow> bool" where
  "set_order order = (\<forall>xs. distinct (order xs) \<and> set (order xs) = set xs)"

definition find_similar_fields ::
  "(string \<Rightarrow> string) \<Rightarrow> (string list \<Rightarrow> string list) \<Rightarrow> string \<Rightarrow> available_fields
     \<Rightarrow> string list" where
  "find_similar_fields lower order target_field available =
     order (suggestions_of lower target_field available)"

text \<open>
  The two error messages, and the result: \<^verbatim>\<open>{"valid": True, "field": f}\<close> or
  \<^verbatim>\<open>{"valid": False, "error": message}\<close>.
\<close>

definition did_you_mean :: "string \<Rightarrow> string list \<Rightarrow> string" where
  "did_you_mean field_name named =
     ''field '' @ apos @ field_name @ apos @ '' not found'' @ [CHR 0xE2, CHR 0x80, CHR 0x94]
     @ ''did you mean '' @ join '', '' named @ ''?''"

definition not_found :: "string \<Rightarrow> string" where
  "not_found field_name = ''field '' @ apos @ field_name @ apos @ '' not found''"

datatype validation = Valid string | Invalid string

definition validate_field_with_suggestions ::
  "(string \<Rightarrow> string) \<Rightarrow> (string list \<Rightarrow> string list) \<Rightarrow> string \<Rightarrow> available_fields
     \<Rightarrow> validation" where
  "validate_field_with_suggestions lower order field_name available =
     (if field_name \<in> set (map fst available) then Valid field_name
      else (let suggestions = find_similar_fields lower order field_name available
            in if suggestions \<noteq> [] then Invalid (did_you_mean field_name (take 3 suggestions))
               else Invalid (not_found field_name)))"

section \<open>Vocabulary of the properties\<close>

text \<open>A range clause, whatever it holds.\<close>

definition is_range_clause :: "clause \<Rightarrow> bool" where
  "is_range_clause c = (case c of RangeClause _ _ \<Rightarrow> True | TermClause _ _ \<Rightarrow> False)"

text \<open>The field a clause is on.\<close>

definition clause_field :: "clause \<Rightarrow> string" where
  "clause_field c = (case c of TermClause f _ \<Rightarrow> f | RangeClause f _ \<Rightarrow> f)"

text \<open>
  An environment in which every tool answers: the classifier returns the given
  interpretation, the search engine seven events on the mobile channel, the link tool a
  Discover address.
\<close>

definition demo_services :: "jsval \<Rightarrow> services" where
  "demo_services structuredQuery =
     \<lparr> interpret_query = (\<lambda>query. Inr structuredQuery),
       execute_es_query = (\<lambda>index d.
         Inr \<lparr> total_count_value = JNum False ''7'',
               by_channel_buckets = Some [\<lparr> key = JStr ''mobile'', doc_count = JNum False ''7'' \<rparr>],
               by_outcome_buckets = None \<rparr>),
       create_kibana_link = (\<lambda>index time_range kql. Inr (JStr ''http://localhost:5601/app/discover'')) \<rparr>"

text \<open>
  The match the specification describes for the Field Resolver: the requested name is,
  ignoring case (under the case mapping \<open>lower\<close>), a substring of the field's name
  or of one of its synonyms.
\<close>

definition matches :: "(string \<Rightarrow> string) \<Rightarrow> string \<Rightarrow> string \<times> metadata \<Rightarrow> bool" where
  "matches lower target fm =
     (str_includes (lower (fst fm)) (lower target)
      \<or> (case synonyms (snd fm) of
            None \<Rightarrow> False
          | Some syns \<Rightarrow> \<exists>synonym \<in> set syns. str_includes (lower synonym) (lower target)))"

text \<open>A schema of three fields, two of them with synonyms.\<close>

definition demo_fields :: available_fields where
  "demo_fields =
     [(''app.channel'', \<lparr> synonyms = None \<rparr>),
      (''event.outcome'', \<lparr> synonyms = Some [''result'', ''status''] \<rparr>),
      (''user.channel'', \<lparr> synonyms = Some [''customer channel''] \<rparr>)]"

section \<open>Properties of the Time Range Resolver\<close>

text \<open>
  In every zone the two midnights enclose the instant they are taken at. In the zone of
  a constant offset they are the multiples of a day, shifted by the offset.
\<close>

lemma midnight_today_le: "midnight_today z now \<le> now"
  by transfer simp

lemma midnight_tomorrow_gt: "now < midnight_tomorrow z now"
  by transfer simp

lemma midnight_today_fixed_offset:
  "midnight_today (fixed_offset tz) now = (now + tz) div msPerDay * msPerDay - tz"
  by (simp add: midnight_today.rep_eq fixed_offset.rep_eq offset_midnight_def)

lemma midnight_tomorrow_fixed_offset:
  "midnight_tomorrow (fixed_offset tz) now = ((now + tz) div msPerDay + 1) * msPerDay - tz"
  by (simp add: midnight_tomorrow.rep_eq fixed_offset.rep_eq offset_midnight_def)

lemma range_from_lt_to:
  "range_from (getDateRangeForDSL z now t) < range_to (getDateRangeForDSL z now t)"
  using midnight_today_le [of z now] midnight_tomorrow_gt [of now z]
  by (simp add: getDateRangeForDSL_def range_from_def range_to_def)

text \<open>
  Claim C10. The upper bound of the resolved range is exclusive for the token
  \<^verbatim>\<open>today\<close>: the range runs from the midnight
  \<^verbatim>\<open>new Date(y, m, d)\<close> that starts the current calendar day to \<^verbatim>\<open>lt\<close> the
  midnight \<^verbatim>\<open>new Date(y, m, d + 1)\<close> that starts the next one, which lies after the
  current instant. The upper bound is inclusive for \<^verbatim>\<open>last_hour\<close>, for
  \<^verbatim>\<open>last_24h\<close> and for every other token, where it is \<^verbatim>\<open>lte\<close> the current
  instant.
\<close>

theorem upper_bound_inclusivity:
  "getDateRangeForDSL z now (JStr ''today'')
     = DateRange (midnight_today z now) (Lt (midnight_tomorrow z now))
   \<and> midnight_today z now \<le> now
   \<and> now < midnight_tomorrow z now
   \<and> upper (getDateRangeForDSL z now (JStr ''last_hour'')) = Lte now
   \<and> upper (getDateRangeForDSL z now (JStr ''last_24h'')) = Lte now
   \<and> (t \<notin> {JStr ''today'', JStr ''last_hour'', JStr ''last_24h''}
        \<longrightarrow> upper (getDateRangeForDSL z now t) = Lte now)"
  using midnight_today_le [of z now] midnight_tomorrow_gt [of now z]
  by (simp add: getDateRangeForDSL_def)

theorem upper_bound_inclusivity_witness:
  "JStr ''last_month'' \<notin> {JStr ''today'', JStr ''last_hour'', JStr ''last_24h''}
   \<and> upper (getDateRangeForDSL (fixed_offset 0) 90000000 (JStr ''last_month'')) = Lte 90000000
   \<and> getDateRangeForDSL (fixed_offset 0) 90000000 (JStr ''today'')
       = DateRange 86400000 (Lt 172800000)"
  using upper_bound_inclusivity [of "fixed_offset 0" 90000000 "JStr ''last_month''"]
  by (simp add: midnight_today_fixed_offset midnight_tomorrow_fixed_offset msPerDay_def)

text \<open>
  Claim C3. The resolver has no case for the token \<^verbatim>\<open>yesterday\<close>: it takes the
  default branch and returns the bounds of the last hour, while the answer text labels
  the period \<^verbatim>\<open>yesterday\<close>.
\<close>

theorem yesterday_falls_back_to_last_hour:
  "getDateRangeForDSL z now (JStr ''yesterday'') = DateRange (now - 3600000) (Lte now)
   \<and> timeDesc (JStr ''yesterday'') = ''yesterday''"
  by (simp add: getDateRangeForDSL_def timeDesc_def)

section \<open>Properties of the must clauses\<close>

lemma length_mustClauses:
  "length (mustClauses z now fs tr)
     = length (entries fs) + (if truthy tr \<and> tr \<noteq> JStr ''null'' then 1 else 0)"
  by (simp add: mustClauses_def)

lemma mustClauses_nth:
  "k < length (entries fs) \<Longrightarrow> mustClauses z now fs tr ! k = filter_clause (entries fs ! k)"
  by (simp add: mustClauses_def nth_append)

lemma mustClauses_last:
  "truthy tr \<Longrightarrow> tr \<noteq> JStr ''null'' \<Longrightarrow>
   mustClauses z now fs tr ! length (entries fs)
     = RangeClause ''@timestamp'' (Resolved (getDateRangeForDSL z now tr))"
  by (simp add: mustClauses_def nth_append)

lemma filter_clause_not_range:
  "\<not> (fst e = ''@timestamp'' \<and> js_typeof (snd e) = ''object'') \<Longrightarrow>
   \<not> is_range_clause (filter_clause e)"
  by (cases e) (auto simp: filter_clause_def is_range_clause_def)

text \<open>
  Claim C5, as stated, fails: a filter whose value is a range-shaped object becomes a
  range clause only under the field name \<^verbatim>\<open>@timestamp\<close>. Under the name
  \<^verbatim>\<open>amount\<close> the object \<^verbatim>\<open>{"gte": 100}\<close> becomes an exact-match clause.
\<close>

theorem range_shaped_filter_is_term_counterexample:
  "mustClauses (fixed_offset 0) 0 (JObj [(''amount'', JObj [(''gte'', JNum False ''100'')])]) JNull
     = [TermClause ''amount'' (JObj [(''gte'', JNum False ''100'')])]"
  by (simp add: mustClauses_def filter_clause_def)

text \<open>
  Claim C5, amended. Every filter becomes exactly one clause, in filter order: a range
  clause on the timestamp field when its name is \<^verbatim>\<open>@timestamp\<close> and its value has
  \<^verbatim>\<open>typeof\<close> \<^verbatim>\<open>object\<close>, an exact-match clause on its own name otherwise (so for
  every scalar value, and for a range-shaped object under any other name). The resolved
  time range, when a token is given, is appended as one more range clause on the
  timestamp field.
\<close>

theorem must_clauses_by_filter:
  "length (mustClauses z now fs tr)
     = length (entries fs) + (if truthy tr \<and> tr \<noteq> JStr ''null'' then 1 else 0)
   \<and> (k < length (entries fs) \<and> entries fs ! k = (field, v) \<longrightarrow>
          mustClauses z now fs tr ! k
            = (if field = ''@timestamp'' \<and> js_typeof v = ''object''
               then RangeClause ''@timestamp'' (FilterValue v)
               else TermClause field v))
   \<and> (truthy tr \<and> tr \<noteq> JStr ''null'' \<longrightarrow>
          mustClauses z now fs tr ! length (entries fs)
            = RangeClause ''@timestamp'' (Resolved (getDateRangeForDSL z now tr)))"
  by (simp add: length_mustClauses mustClauses_nth mustClauses_last filter_clause_def)

theorem must_clauses_by_filter_witness:
  "(1::nat) < length (entries (JObj [(''@timestamp'', JObj [(''gte'', JStr ''now-1d'')]),
                                     (''amount'', JObj [(''gte'', JNum False ''100'')])]))
   \<and> entries (JObj [(''@timestamp'', JObj [(''gte'', JStr ''now-1d'')]),
                    (''amount'', JObj [(''gte'', JNum False ''100'')])]) ! 1
       = (''amount'', JObj [(''gte'', JNum False ''100'')])
   \<and> truthy (JStr ''last_hour'') \<and> JStr ''last_hour'' \<noteq> JStr ''null''
   \<and> length (mustClauses (fixed_offset 0) 7200000
         (JObj [(''@timestamp'', JObj [(''gte'', JStr ''now-1d'')]),
                (''amount'', JObj [(''gte'', JNum False ''100'')])]) (JStr ''last_hour'')) = 3
   \<and> mustClauses (fixed_offset 0) 7200000
         (JObj [(''@timestamp'', JObj [(''gte'', JStr ''now-1d'')]),
                (''amount'', JObj [(''gte'', JNum False ''100'')])]) (JStr ''last_hour'') ! 1
       = TermClause ''amount'' (JObj [(''gte'', JNum False ''100'')])
   \<and> mustClauses (fixed_offset 0) 7200000
         (JObj [(''@timestamp'', JObj [(''gte'', JStr ''now-1d'')]),
                (''amount'', JObj [(''gte'', JNum False ''100'')])]) (JStr ''last_hour'') ! 2
       = RangeClause ''@timestamp'' (Resolved (DateRange 3600000 (Lte 7200000)))"
  using must_clauses_by_filter [of "fixed_offset 0" 7200000
      "JObj [(''@timestamp'', JObj [(''gte'', JStr ''now-1d'')]),
             (''amount'', JObj [(''gte'', JNum False ''100'')])]"
      "JStr ''last_hour''" 1 "''amount''" "JObj [(''gte'', JNum False ''100'')]"]
  by (simp add: getDateRangeForDSL_def eval_nat_numeral)

text \<open>
  Claim C6, as stated, fails: with the token \<^verbatim>\<open>null\<close> the document still contains a
  range clause on the timestamp field when the filters carry one.
\<close>

theorem filter_timestamp_range_counterexample:
  "mustClauses (fixed_offset 0) 0 (JObj [(''@timestamp'', JObj [(''gte'', JStr ''now-1d'')])]) JNull
     = [RangeClause ''@timestamp'' (FilterValue (JObj [(''gte'', JStr ''now-1d'')]))]"
  by (simp add: mustClauses_def filter_clause_def)

text \<open>
  Claim C6, amended. When the time-range token is \<^verbatim>\<open>null\<close>, absent or the string
  \<^verbatim>\<open>'null'\<close>, nothing is appended for the time range: the must clauses are exactly
  the clauses of the filters, one each, and there is no range clause among them unless
  the filters themselves hold an object under \<^verbatim>\<open>@timestamp\<close>. For every token the
  resolved range satisfies \<open>from < to\<close>.
\<close>

theorem no_time_range_appended:
  "(tr = JNull \<or> tr = JUndefined \<or> tr = JStr ''null'' \<longrightarrow>
      mustClauses z now fs tr = map filter_clause (entries fs)
      \<and> length (mustClauses z now fs tr) = length (entries fs)
      \<and> ((\<forall>e \<in> set (entries fs). \<not> (fst e = ''@timestamp'' \<and> js_typeof (snd e) = ''object''))
           \<longrightarrow> (\<forall>c \<in> set (mustClauses z now fs tr). \<not> is_range_clause c)))
   \<and> range_from (getDateRangeForDSL z now t) < range_to (getDateRangeForDSL z now t)"
  using range_from_lt_to [of z now t]
  by (auto simp: mustClauses_def filter_clause_not_range)

theorem no_time_range_appended_witness:
  "mustClauses (fixed_offset 0) 7200000 (JObj [(''app.channel'', JStr ''mobile'')]) (JStr ''null'')
     = [TermClause ''app.channel'' (JStr ''mobile'')]
   \<and> \<not> is_range_clause (TermClause ''app.channel'' (JStr ''mobile''))
   \<and> range_from (getDateRangeForDSL (fixed_offset 0) 7200000 (JStr ''today''))
       < range_to (getDateRangeForDSL (fixed_offset 0) 7200000 (JStr ''today''))"
  using no_time_range_appended [of "JStr ''null''" "fixed_offset 0" 7200000
      "JObj [(''app.channel'', JStr ''mobile'')]" "JStr ''today''"]
  by (simp add: filter_clause_def)

section \<open>Properties of the pipeline\<close>

lemma processQuery_count:
  assumes "interpret_query svc q = Inr sq" and "normalize q sq = Inr i"
    and "branch_of (queryType i) = Count"
  shows "processQuery svc z now q
           = (InterpretQuery q # fst (count_query svc z now q sq i),
              snd (count_query svc z now q sq i))"
  using assms by (simp add: processQuery_def split: prod.splits)

lemma count_query_calls:
  "\<exists>rest. fst (count_query svc z now q sq i)
      = ExecuteEsQuery (indexPattern q) (count_dsl (mustClauses z now (filters i) (timeRange i)))
        # rest"
  by (simp add: count_query_def Let_def split: sum.splits option.splits)

lemma count_query_response:
  assumes "snd (count_query svc z now q sq i) = Inr r"
  shows "\<exists>res. execute_es_query svc (indexPattern q)
                 (count_dsl (mustClauses z now (filters i) (timeRange i))) = Inr res
             \<and> count_answer (description i) (timeRange i) res = Some (answer r)
             \<and> dsl r = DslDoc (count_dsl (mustClauses z now (filters i) (timeRange i)))"
  using assms by (auto simp: count_query_def Let_def split: sum.splits option.splits)

lemma clause_field_filter_clause: "clause_field (filter_clause e) = fst e"
  by (cases e) (simp add: clause_field_def filter_clause_def)

lemma normalize_Inr:
  "\<not> nullish sq \<Longrightarrow>
   normalize q sq
     = Inr \<lparr> timeRange = get_prop sq ''time_range'',
             filters = js_or (get_prop sq ''filters'') (JObj []),
             queryType = js_or (get_prop sq ''query_type'') (JStr ''count''),
             description = js_or (get_prop sq ''description'') (JStr q) \<rparr>"
  by (simp add: normalize_def)

lemma count_answer_shape:
  assumes "count_answer descr tr res = Some a"
  shows "\<exists>d n rest. js_toString descr = Some d
           \<and> a = d @ nl @ nl @ ''**'' @ n @ ''** events found in the '' @ timeDesc tr @ ''.'' @ rest"
  using assms
  by (auto simp: count_answer_def Let_def split: option.splits)

lemma timeDesc_all_time:
  "tr \<notin> {JStr ''today'', JStr ''last_24h'', JStr ''last_hour'', JStr ''yesterday'',
           JStr ''last_week''} \<Longrightarrow> timeDesc tr = ''all time''"
  by (simp add: timeDesc_def)

text \<open>
  Claim C1, as stated, fails: \<^verbatim>\<open>processQuery\<close> resolves no filter key against any
  schema. The key \<^verbatim>\<open>nosuchfield\<close>, which the Field Resolver reports as not found with
  no suggestion, enters the document as an exact-match clause, and the search engine
  is called with it.
\<close>

theorem unknown_field_reaches_search_engine_counterexample:
  "validate_field_with_suggestions ascii_lower remdups ''nosuchfield''
       [(''app.channel'', \<lparr> synonyms = None \<rparr>), (''event.outcome'', \<lparr> synonyms = Some [''result''] \<rparr>)]
     = Invalid (not_found ''nosuchfield'')
   \<and> processQuery
       (demo_services (JObj [(''query_type'', JStr ''count''),
                             (''filters'', JObj [(''nosuchfield'', JStr ''x'')])]))
       (fixed_offset 0) 0 ''how many''
     = ([InterpretQuery ''how many'',
         ExecuteEsQuery ''logs-*'' (count_dsl [TermClause ''nosuchfield'' (JStr ''x'')]),
         CreateKibanaLink ''logs-*'' (JStr ''all_time'') (''nosuchfield:'' @ dq @ ''x'' @ dq)],
        Inr \<lparr> answer = ''how many'' @ nl @ nl @ ''**7** events found in the all time.''
                         @ nl @ nl @ ''Breakdown by channel:'' @ nl @ ''- mobile: 7'',
              kibanaLink = JStr ''http://localhost:5601/app/discover'',
              dsl = DslDoc (count_dsl [TermClause ''nosuchfield'' (JStr ''x'')]),
              interpreted_query = JObj [(''query_type'', JStr ''count''),
                                        (''filters'', JObj [(''nosuchfield'', JStr ''x'')])] \<rparr>)"
  by (simp add: validate_field_with_suggestions_def find_similar_fields_def ascii_lower_def
      lower_char_def processQuery_def normalize_def nullish_def js_or_def branch_of_def
      count_query_def Let_def mustClauses_def filter_clause_def indexPattern_def toLowerCase_def
      count_answer_def breakdown_def bucket_line_def timeDesc_def kqlQuery_def kql_atom_def
      demo_services_def)

text \<open>
  Claim C1, amended. For every count request the filter keys of the interpretation
  enter the built document as they are, one clause per filter and in filter order, and
  the search engine is called with that document right after the classifier; no key is
  resolved, and no key makes the pipeline stop before that call.
\<close>

theorem count_request_filters_unvalidated:
  assumes "interpret_query svc q = Inr sq" and "normalize q sq = Inr i"
    and "branch_of (queryType i) = Count"
  shows "(\<exists>rest r. processQuery svc z now q
            = (InterpretQuery q
               # ExecuteEsQuery (indexPattern q)
                   (count_dsl (mustClauses z now (filters i) (timeRange i)))
               # rest, r))
         \<and> map clause_field (take (length (entries (filters i)))
                                 (must (count_dsl (mustClauses z now (filters i) (timeRange i)))))
             = map fst (entries (filters i))"
proof -
  obtain rest where "fst (count_query svc z now q sq i)
      = ExecuteEsQuery (indexPattern q) (count_dsl (mustClauses z now (filters i) (timeRange i)))
        # rest"
    using count_query_calls by blast
  then have "\<exists>rest r. processQuery svc z now q
            = (InterpretQuery q
               # ExecuteEsQuery (indexPattern q)
                   (count_dsl (mustClauses z now (filters i) (timeRange i)))
               # rest, r)"
    using processQuery_count [OF assms] by simp
  moreover have "map clause_field (take (length (entries (filters i)))
                                 (must (count_dsl (mustClauses z now (filters i) (timeRange i)))))
             = map fst (entries (filters i))"
    by (simp add: count_dsl_def mustClauses_def clause_field_filter_clause)
  ultimately show ?thesis by blast
qed

theorem count_request_filters_unvalidated_witness:
  "interpret_query
       (demo_services (JObj [(''query_type'', JStr ''count''),
                             (''filters'', JObj [(''nosuchfield'', JStr ''x'')])])) ''how many''
     = Inr (JObj [(''query_type'', JStr ''count''),
                  (''filters'', JObj [(''nosuchfield'', JStr ''x'')])])
   \<and> normalize ''how many'' (JObj [(''query_type'', JStr ''count''),
                                   (''filters'', JObj [(''nosuchfield'', JStr ''x'')])])
     = Inr \<lparr> timeRange = JUndefined, filters = JObj [(''nosuchfield'', JStr ''x'')],
             queryType = JStr ''count'', description = JStr ''how many'' \<rparr>
   \<and> branch_of (JStr ''count'') = Count
   \<and> (\<exists>rest r. processQuery
         (demo_services (JObj [(''query_type'', JStr ''count''),
                               (''filters'', JObj [(''nosuchfield'', JStr ''x'')])]))
         (fixed_offset 0) 0 ''how many''
       = (InterpretQuery ''how many''
          # ExecuteEsQuery ''logs-*'' (count_dsl [TermClause ''nosuchfield'' (JStr ''x'')])
          # rest, r))
   \<and> map clause_field (take 1 (must (count_dsl [TermClause ''nosuchfield'' (JStr ''x'')])))
       = [''nosuchfield'']"
proof -
  let ?sq = "JObj [(''query_type'', JStr ''count''),
                   (''filters'', JObj [(''nosuchfield'', JStr ''x'')])]"
  let ?i = "\<lparr> timeRange = JUndefined, filters = JObj [(''nosuchfield'', JStr ''x'')],
             queryType = JStr ''count'', description = JStr ''how many'' \<rparr>"
  have h1: "interpret_query (demo_services ?sq) ''how many'' = Inr ?sq"
    by (simp add: demo_services_def)
  have h2: "normalize ''how many'' ?sq = Inr ?i"
    by (simp add: normalize_def nullish_def js_or_def)
  have h3: "branch_of (queryType ?i) = Count"
    by (simp add: branch_of_def)
  show ?thesis
    using h1 h2 h3 count_request_filters_unvalidated [OF h1 h2 h3, of "fixed_offset 0" 0]
    by (simp add: mustClauses_def filter_clause_def indexPattern_def toLowerCase_def
        lower_char_def)
qed

text \<open>
  Claim C2, as stated, fails: an interpretation without \<^verbatim>\<open>query_type\<close> is given
  the type \<^verbatim>\<open>count\<close> and takes the count branch.
\<close>

theorem absent_query_type_is_count_counterexample:
  "get_prop (JObj [(''description'', JStr ''failed logins'')]) ''query_type'' = JUndefined
   \<and> normalize ''how many failed logins'' (JObj [(''description'', JStr ''failed logins'')])
     = Inr \<lparr> timeRange = JUndefined, filters = JObj [], queryType = JStr ''count'',
             description = JStr ''failed logins'' \<rparr>
   \<and> branch_of (JStr ''count'') = Count"
  by (simp add: normalize_def nullish_def js_or_def branch_of_def)

text \<open>
  Claim C2, amended. Every interpretation that is an object is normalized so that: a
  missing or falsy \<^verbatim>\<open>filters\<close> becomes the empty mapping; a missing or empty
  \<^verbatim>\<open>description\<close> falls back to the raw question; a missing or falsy
  \<^verbatim>\<open>query_type\<close> becomes \<^verbatim>\<open>count\<close>; every other value is kept, and a query type
  that is kept is treated as unsupported exactly when it is none of \<^verbatim>\<open>count\<close>,
  \<^verbatim>\<open>greeting\<close> and \<^verbatim>\<open>help\<close>.
\<close>

theorem normalize_defaults:
  assumes "\<not> nullish sq"
  shows "\<exists>i. normalize q sq = Inr i
           \<and> timeRange i = get_prop sq ''time_range''
           \<and> (if truthy (get_prop sq ''filters'')
               then filters i = get_prop sq ''filters''
               else filters i = JObj [] \<and> entries (filters i) = [])
           \<and> (if truthy (get_prop sq ''description'')
               then description i = get_prop sq ''description''
               else description i = JStr q)
           \<and> (if truthy (get_prop sq ''query_type'')
               then queryType i = get_prop sq ''query_type''
                    \<and> (branch_of (queryType i) = Unsupported
                         \<longleftrightarrow> get_prop sq ''query_type''
                               \<notin> {JStr ''count'', JStr ''greeting'', JStr ''help''})
               else queryType i = JStr ''count'' \<and> branch_of (queryType i) = Count)"
  using assms by (auto simp: normalize_def js_or_def branch_of_def)

theorem normalize_defaults_witness:
  "\<not> nullish (JObj [(''query_type'', JStr ''trend''), (''description'', JStr [])])
   \<and> (\<exists>i. normalize ''logins per day'' (JObj [(''query_type'', JStr ''trend''),
                                              (''description'', JStr [])]) = Inr i
          \<and> timeRange i = JUndefined
          \<and> filters i = JObj [] \<and> entries (filters i) = []
          \<and> description i = JStr ''logins per day''
          \<and> queryType i = JStr ''trend''
          \<and> branch_of (queryType i) = Unsupported)"
proof -
  have h: "\<not> nullish (JObj [(''query_type'', JStr ''trend''), (''description'', JStr [])])"
    by (simp add: nullish_def)
  show ?thesis
    using h normalize_defaults [OF h, of "''logins per day''"] by simp
qed




text \<open>
  Claim C9, as stated, fails: the string \<^verbatim>\<open>'null'\<close> is a token outside the label
  set, labelled \<^verbatim>\<open>all time\<close>, for which the document has no range clause at all.
\<close>

theorem null_token_has_no_range_clause_counterexample:
  "JStr ''null'' \<notin> {JStr ''today'', JStr ''last_24h'', JStr ''last_hour'', JStr ''yesterday'',
                      JStr ''last_week''}
   \<and> timeDesc (JStr ''null'') = ''all time''
   \<and> must (count_dsl (mustClauses (fixed_offset 0) 0 (JObj []) (JStr ''null''))) = []"
  by (simp add: timeDesc_def count_dsl_def mustClauses_def)

text \<open>
  Claim C9, amended. For every time token outside the label set the answer of a count
  request describes the period as \<^verbatim>\<open>all time\<close>. When the token is truthy and not the
  string \<^verbatim>\<open>'null'\<close>, the must clauses of the document nevertheless end with a range
  clause bounding the last hour, appended after the clauses of the filters: label and
  bound disagree. When the token is falsy or the string \<^verbatim>\<open>'null'\<close>, which puts it
  outside the label set, nothing is appended: the must clauses are the clauses of the
  filters.
\<close>

theorem unlabelled_token_all_time_but_last_hour:
  assumes "interpret_query svc q = Inr sq" and "normalize q sq = Inr i"
    and "branch_of (queryType i) = Count"
    and "timeRange i \<notin> {JStr ''today'', JStr ''last_24h'', JStr ''last_hour'',
                          JStr ''yesterday'', JStr ''last_week''}"
    and "snd (processQuery svc z now q) = Inr r"
  shows "(\<exists>d n rest. answer r = d @ nl @ nl @ ''**'' @ n @ ''** events found in the all time.''
                                 @ rest)
         \<and> (truthy (timeRange i) \<and> timeRange i \<noteq> JStr ''null'' \<longrightarrow>
              (\<exists>doc. dsl r = DslDoc doc
                 \<and> length (must doc) = length (entries (filters i)) + 1
                 \<and> take (length (entries (filters i))) (must doc)
                     = map filter_clause (entries (filters i))
                 \<and> must doc ! length (entries (filters i))
                     = RangeClause ''@timestamp''
                         (Resolved (DateRange (now - 60 * 60 * 1000) (Lte now)))))
         \<and> (\<not> truthy (timeRange i) \<or> timeRange i = JStr ''null'' \<longrightarrow>
              (\<exists>doc. dsl r = DslDoc doc
                 \<and> must doc = map filter_clause (entries (filters i))))"
proof -
  let ?doc = "count_dsl (mustClauses z now (filters i) (timeRange i))"
  have "snd (count_query svc z now q sq i) = Inr r"
    using processQuery_count [OF assms(1-3), of z now] assms(5) by simp
  then obtain res where
    a: "count_answer (description i) (timeRange i) res = Some (answer r)" and
    d: "dsl r = DslDoc ?doc"
    using count_query_response by blast
  have "timeDesc (timeRange i) = ''all time''"
    using assms(4) by (rule timeDesc_all_time)
  with count_answer_shape [OF a]
  have 1: "\<exists>d n rest. answer r = d @ nl @ nl @ ''**'' @ n @ ''** events found in the all time.''
                                 @ rest"
    by auto
  have g: "getDateRangeForDSL z now (timeRange i) = DateRange (now - 60 * 60 * 1000) (Lte now)"
    using assms(4) by (simp add: getDateRangeForDSL_def)
  have 2: "\<exists>doc. dsl r = DslDoc doc
             \<and> length (must doc) = length (entries (filters i)) + 1
             \<and> take (length (entries (filters i))) (must doc)
                 = map filter_clause (entries (filters i))
             \<and> must doc ! length (entries (filters i))
                 = RangeClause ''@timestamp''
                     (Resolved (DateRange (now - 60 * 60 * 1000) (Lte now)))"
    if t: "truthy (timeRange i)" "timeRange i \<noteq> JStr ''null''"
  proof -
    have "length (must ?doc) = length (entries (filters i)) + 1"
      using t by (simp add: count_dsl_def length_mustClauses)
    moreover have "take (length (entries (filters i))) (must ?doc)
                     = map filter_clause (entries (filters i))"
      by (simp add: count_dsl_def mustClauses_def)
    moreover have "must ?doc ! length (entries (filters i))
           = RangeClause ''@timestamp'' (Resolved (DateRange (now - 60 * 60 * 1000) (Lte now)))"
      using t g by (simp add: count_dsl_def mustClauses_last)
    ultimately show ?thesis
      using d by blast
  qed
  have 3: "\<exists>doc. dsl r = DslDoc doc \<and> must doc = map filter_clause (entries (filters i))"
    if "\<not> truthy (timeRange i) \<or> timeRange i = JStr ''null''"
  proof -
    have "must ?doc = map filter_clause (entries (filters i))"
      using that by (auto simp: count_dsl_def mustClauses_def)
    with d show ?thesis
      by blast
  qed
  from 1 2 3 show ?thesis
    by blast
qed

theorem unlabelled_token_all_time_but_last_hour_witness:
  "JStr ''last_month'' \<notin> {JStr ''today'', JStr ''last_24h'', JStr ''last_hour'',
                             JStr ''yesterday'', JStr ''last_week''}
   \<and> truthy (JStr ''last_month'') \<and> JStr ''last_month'' \<noteq> JStr ''null''
   \<and> snd (processQuery (demo_services (JObj [(''time_range'', JStr ''last_month'')]))
            (fixed_offset 0) 7200000 ''how many'')
     = Inr \<lparr> answer = ''how many'' @ nl @ nl @ ''**7** events found in the all time.''
                       @ nl @ nl @ ''Breakdown by channel:'' @ nl @ ''- mobile: 7'',
             kibanaLink = JStr ''http://localhost:5601/app/discover'',
             dsl = DslDoc (count_dsl [RangeClause ''@timestamp''
                                        (Resolved (DateRange 3600000 (Lte 7200000)))]),
             interpreted_query = JObj [(''time_range'', JStr ''last_month'')] \<rparr>
   \<and> (\<exists>d n rest. ''how many'' @ nl @ nl @ ''**7** events found in the all time.''
                       @ nl @ nl @ ''Breakdown by channel:'' @ nl @ ''- mobile: 7''
                   = d @ nl @ nl @ ''**'' @ n @ ''** events found in the all time.'' @ rest)
   \<and> must (count_dsl [RangeClause ''@timestamp'' (Resolved (DateRange 3600000 (Lte 7200000)))])
         ! 0
     = RangeClause ''@timestamp'' (Resolved (DateRange (7200000 - 60 * 60 * 1000) (Lte 7200000)))
   \<and> JStr ''null'' \<notin> {JStr ''today'', JStr ''last_24h'', JStr ''last_hour'',
                        JStr ''yesterday'', JStr ''last_week''}
   \<and> snd (processQuery (demo_services (JObj [(''time_range'', JStr ''null'')]))
            (fixed_offset 0) 7200000 ''how many'')
     = Inr \<lparr> answer = ''how many'' @ nl @ nl @ ''**7** events found in the all time.''
                       @ nl @ nl @ ''Breakdown by channel:'' @ nl @ ''- mobile: 7'',
             kibanaLink = JStr ''http://localhost:5601/app/discover'',
             dsl = DslDoc (count_dsl []),
             interpreted_query = JObj [(''time_range'', JStr ''null'')] \<rparr>
   \<and> must (count_dsl []) = []"
proof -
  let ?sq = "JObj [(''time_range'', JStr ''last_month'')]"
  let ?i = "\<lparr> timeRange = JStr ''last_month'', filters = JObj [],
             queryType = JStr ''count'', description = JStr ''how many'' \<rparr>"
  let ?a = "''how many'' @ nl @ nl @ ''**7** events found in the all time.''
              @ nl @ nl @ ''Breakdown by channel:'' @ nl @ ''- mobile: 7''"
  let ?r = "\<lparr> answer = ?a,
             kibanaLink = JStr ''http://localhost:5601/app/discover'',
             dsl = DslDoc (count_dsl [RangeClause ''@timestamp''
                                        (Resolved (DateRange 3600000 (Lte 7200000)))]),
             interpreted_query = ?sq \<rparr>"
  let ?sq' = "JObj [(''time_range'', JStr ''null'')]"
  let ?i' = "\<lparr> timeRange = JStr ''null'', filters = JObj [],
              queryType = JStr ''count'', description = JStr ''how many'' \<rparr>"
  let ?r' = "\<lparr> answer = ?a,
              kibanaLink = JStr ''http://localhost:5601/app/discover'',
              dsl = DslDoc (count_dsl []), interpreted_query = ?sq' \<rparr>"
  have h1: "interpret_query (demo_services ?sq) ''how many'' = Inr ?sq"
    and k1: "interpret_query (demo_services ?sq') ''how many'' = Inr ?sq'"
    by (simp_all add: demo_services_def)
  have h2: "normalize ''how many'' ?sq = Inr ?i"
    and k2: "normalize ''how many'' ?sq' = Inr ?i'"
    by (simp_all add: normalize_def nullish_def js_or_def)
  have h3: "branch_of (queryType ?i) = Count"
    and k3: "branch_of (queryType ?i') = Count"
    by (simp_all add: branch_of_def)
  have h4: "timeRange ?i \<notin> {JStr ''today'', JStr ''last_24h'', JStr ''last_hour'',
                              JStr ''yesterday'', JStr ''last_week''}"
    and k4: "timeRange ?i' \<notin> {JStr ''today'', JStr ''last_24h'', JStr ''last_hour'',
                               JStr ''yesterday'', JStr ''last_week''}"
    by simp_all
  have h5: "snd (processQuery (demo_services ?sq) (fixed_offset 0) 7200000 ''how many'') = Inr ?r"
    and k5: "snd (processQuery (demo_services ?sq') (fixed_offset 0) 7200000 ''how many'')
               = Inr ?r'"
    by (simp_all add: processQuery_def normalize_def nullish_def js_or_def branch_of_def
        count_query_def Let_def mustClauses_def getDateRangeForDSL_def indexPattern_def
        toLowerCase_def lower_char_def count_answer_def breakdown_def bucket_line_def
        timeDesc_def kqlQuery_def demo_services_def)
  show ?thesis
    using h4 h5 k4 k5 unlabelled_token_all_time_but_last_hour [OF h1 h2 h3 h4 h5]
      unlabelled_token_all_time_but_last_hour [OF k1 k2 k3 k4 k5]
    by simp
qed

section \<open>Properties of the deep-link filter expression\<close>







lemma kibana_call_carries_kql:
  assumes "CreateKibanaLink idx t k \<in> set (fst (processQuery svc z now q))"
  shows "\<exists>sq i. interpret_query svc q = Inr sq \<and> normalize q sq = Inr i
                 \<and> kqlQuery (filters i) = Some k"
  using assms
  by (auto simp: processQuery_def count_query_def Let_def
      split: sum.splits option.splits branch.splits prod.splits)



section \<open>Properties of the Field Resolver\<close>

lemma set_synonym_hits:
  "set (synonym_hits lower target field syns)
     = (if \<exists>synonym \<in> set syns. str_includes (lower synonym) (lower target) then {field} else {})"
  by (induction syns) auto

lemma set_suggestions_of:
  "set (suggestions_of lower target available)
     = {fst fm | fm. fm \<in> set available \<and> matches lower target fm}"
proof (induction available)
  case Nil
  then show ?case by simp
next
  case (Cons fm rest)
  obtain field m where fm: "fm = (field, m)" by (cases fm)
  have "set (suggestions_of lower target (fm # rest))
          = (if matches lower target fm then {field} else {}) \<union> set (suggestions_of lower target rest)"
    by (auto simp: fm matches_def set_synonym_hits split: option.splits)
  with Cons.IH show ?case
    by (auto simp: fm)
qed

lemma set_order_remdups: "set_order remdups"
  by (simp add: set_order_def)

lemma set_order_rev_remdups: "set_order (rev \<circ> remdups)"
  by (simp add: set_order_def)

text \<open>
  Claim C4, as stated, fails in its order: the suggestions come out of
  \<^verbatim>\<open>list(set(...))\<close>, in the iteration order of a set. Under the order that lists
  a set backwards the two matching fields are named against the schema's order.
\<close>

theorem suggestions_not_in_schema_order_counterexample:
  "set_order (rev \<circ> remdups)
   \<and> suggestions_of ascii_lower ''channel'' demo_fields
       = [''app.channel'', ''user.channel'', ''user.channel'']
   \<and> validate_field_with_suggestions ascii_lower (rev \<circ> remdups) ''channel'' demo_fields
       = Invalid (did_you_mean ''channel'' [''user.channel'', ''app.channel''])"
  by (simp add: set_order_rev_remdups validate_field_with_suggestions_def
      find_similar_fields_def demo_fields_def ascii_lower_def lower_char_def)

text \<open>
  Claim C4, amended. Whatever the case mapping \<^verbatim>\<open>str.lower\<close> is: for a name absent
  from the schema, whenever it matches a schema field or one of its synonyms (as a
  substring, both sides lowered) the resolver reports it as not found and names
  suggestions: at least one and at most 3, without duplicates, each a matching schema
  field, and all the matching fields when these are at most 3; their order is the
  set's, whatever it is. When the name matches nothing the resolver reports it as not
  found, with no suggestion.
\<close>

theorem field_resolver_suggests_or_rejects:
  assumes "set_order order" and "field_name \<notin> set (map fst available)"
  shows "if \<exists>fm \<in> set available. matches lower field_name fm
         then \<exists>named. validate_field_with_suggestions lower order field_name available
                          = Invalid (did_you_mean field_name named)
                \<and> named \<noteq> [] \<and> length named \<le> 3 \<and> distinct named
                \<and> set named \<subseteq> {fst fm | fm. fm \<in> set available \<and> matches lower field_name fm}
                \<and> (card {fst fm | fm. fm \<in> set available \<and> matches lower field_name fm} \<le> 3
                     \<longrightarrow> set named = {fst fm | fm. fm \<in> set available \<and> matches lower field_name fm})
         else validate_field_with_suggestions lower order field_name available
                = Invalid (not_found field_name)"
proof -
  let ?M = "{fst fm | fm. fm \<in> set available \<and> matches lower field_name fm}"
  let ?s = "find_similar_fields lower order field_name available"
  have d: "distinct ?s" and s: "set ?s = ?M"
    using assms(1) by (simp_all add: find_similar_fields_def set_order_def set_suggestions_of)
  show ?thesis
  proof (cases "\<exists>fm \<in> set available. matches lower field_name fm")
    case True
    then have ne: "?s \<noteq> []"
      using s by (metis (mono_tags, lifting) empty_iff list.set(1) mem_Collect_eq)
    have v: "validate_field_with_suggestions lower order field_name available
               = Invalid (did_you_mean field_name (take 3 ?s))"
      using assms(2) ne by (simp add: validate_field_with_suggestions_def Let_def)
    have 1: "take 3 ?s \<noteq> []" using ne by simp
    have 2: "length (take 3 ?s) \<le> 3" by simp
    have 3: "distinct (take 3 ?s)" using d by simp
    have 4: "set (take 3 ?s) \<subseteq> ?M" using s set_take_subset by fastforce
    have 5: "set (take 3 ?s) = ?M" if "card ?M \<le> 3"
    proof -
      have "length ?s = card ?M" using d s distinct_card by fastforce
      with that have "take 3 ?s = ?s" by simp
      with s show ?thesis by simp
    qed
    have "\<exists>named. validate_field_with_suggestions lower order field_name available
                          = Invalid (did_you_mean field_name named)
                \<and> named \<noteq> [] \<and> length named \<le> 3 \<and> distinct named
                \<and> set named \<subseteq> ?M
                \<and> (card ?M \<le> 3 \<longrightarrow> set named = ?M)"
      using v 1 2 3 4 5 by (intro exI [of _ "take 3 ?s"] conjI impI)
    then show ?thesis
      by (subst if_P [OF True])
  next
    case False
    then have "?M = {}" by auto
    with s have "set ?s = {}" by (rule trans)
    then have "?s = []" by (simp only: set_empty)
    with assms(2)
    have "validate_field_with_suggestions lower order field_name available
            = Invalid (not_found field_name)"
      by (simp add: validate_field_with_suggestions_def Let_def)
    then show ?thesis
      by (subst if_not_P [OF False])
  qed
qed

theorem field_resolver_suggests_or_rejects_witness:
  "set_order remdups
   \<and> ''channel'' \<notin> set (map fst demo_fields)
   \<and> (\<exists>fm \<in> set demo_fields. matches ascii_lower ''channel'' fm)
   \<and> (\<exists>named. validate_field_with_suggestions ascii_lower remdups ''channel'' demo_fields
                   = Invalid (did_you_mean ''channel'' named)
          \<and> named \<noteq> [] \<and> length named \<le> 3 \<and> distinct named)
   \<and> validate_field_with_suggestions ascii_lower remdups ''channel'' demo_fields
       = Invalid (did_you_mean ''channel'' [''app.channel'', ''user.channel''])
   \<and> ''nosuchfield'' \<notin> set (map fst demo_fields)
   \<and> \<not> (\<exists>fm \<in> set demo_fields. matches ascii_lower ''nosuchfield'' fm)
   \<and> validate_field_with_suggestions ascii_lower remdups ''nosuchfield'' demo_fields
       = Invalid (not_found ''nosuchfield'')"
proof -
  have h1: "set_order remdups"
    by (rule set_order_remdups)
  have h2: "''channel'' \<notin> set (map fst demo_fields)"
    and h3: "''nosuchfield'' \<notin> set (map fst demo_fields)"
    by (simp_all add: demo_fields_def)
  have m: "\<exists>fm \<in> set demo_fields. matches ascii_lower ''channel'' fm"
    by (simp add: demo_fields_def matches_def ascii_lower_def lower_char_def)
  have n: "\<not> (\<exists>fm \<in> set demo_fields. matches ascii_lower ''nosuchfield'' fm)"
    by (simp add: demo_fields_def matches_def ascii_lower_def lower_char_def)
  have "\<exists>named. validate_field_with_suggestions ascii_lower remdups ''channel'' demo_fields
                   = Invalid (did_you_mean ''channel'' named)
          \<and> named \<noteq> [] \<and> length named \<le> 3 \<and> distinct named"
    using field_resolver_suggests_or_rejects [OF h1 h2, where lower = ascii_lower] unfolding if_P [OF m] by blast
  moreover have "validate_field_with_suggestions ascii_lower remdups ''nosuchfield'' demo_fields
       = Invalid (not_found ''nosuchfield'')"
    using field_resolver_suggests_or_rejects [OF h1 h3, where lower = ascii_lower] unfolding if_not_P [OF n] .
  moreover have "validate_field_with_suggestions ascii_lower remdups ''channel'' demo_fields
       = Invalid (did_you_mean ''channel'' [''app.channel'', ''user.channel''])"
    by (simp add: validate_field_with_suggestions_def find_similar_fields_def demo_fields_def
        ascii_lower_def lower_char_def)
  ultimately show ?thesis
    using h1 h2 h3 m n by blast
qed

end
